theory Spec2Isabelle
  imports Main
begin

section \<open>The relayer service (relayer-service/server.js)\<close>

text \<open>
  The development embeds the \<^verbatim>\<open>POST /submit-vote\<close> handler of the relayer and the
  background confirmation monitor it starts. Everything the handler obtains from outside
  (the JSON body, the ethers library, the provider and the contract) is an explicit
  input; every call the handler makes on the provider or the contract, and every timer
  of the monitor, is recorded in an event list in program order.
\<close>

subsection \<open>JSON values of the request body\<close>

text \<open>
  \<^verbatim>\<open>req.body\<close> is what \<^verbatim>\<open>bodyParser.json()\<close> produced; a property that is not in the
  body reads as \<^verbatim>\<open>undefined\<close>. Numbers are the integer-valued ones.
\<close>

datatype jsval =
    JUndefined
  | JNull
  | JBool bool
  | JNum int
  | JStr string
  | JArr "jsval list"
  | JObj "(string \<times> jsval) list"

text \<open>JavaScript truthiness, as tested by \<^verbatim>\<open>!x\<close>.\<close>

fun truthy :: "jsval \<Rightarrow> bool" where
  "truthy JUndefined = False"
| "truthy JNull = False"
| "truthy (JBool b) = b"
| "truthy (JNum n) = (n \<noteq> 0)"
| "truthy (JStr s) = (s \<noteq> [])"
| "truthy (JArr xs) = True"
| "truthy (JObj kvs) = True"

text \<open>
  ToString, as a template literal applies it. An object with a key \<^verbatim>\<open>toString\<close> of its
  own cannot be converted: the value of the key comes from JSON and is not callable, and
  \<^verbatim>\<open>valueOf\<close> gives no primitive, so a TypeError is thrown. An array is joined, which
  converts its elements. Every other value has a string.
\<close>

fun toString_throws :: "jsval \<Rightarrow> bool" where
  "toString_throws (JObj kvs) = list_ex (\<lambda>kv. fst kv = ''toString'') kvs"
| "toString_throws (JArr xs) = list_ex toString_throws xs"
| "toString_throws v = False"

record vote_request =
  pollId :: jsval
  candidateId :: jsval
  voter :: jsval
  signature :: jsval
  merkleProof :: jsval

subsection \<open>Strings\<close>

text \<open>\<^verbatim>\<open>String.prototype.includes\<close>: the pattern occurs as a contiguous substring.\<close>

fun str_includes :: "string \<Rightarrow> string \<Rightarrow> bool" where
  "str_includes [] p = (p = [])"
| "str_includes (c # cs) p = (take (length p) (c # cs) = p \<or> str_includes cs p)"

text \<open>\<^verbatim>\<open>String.prototype.toLowerCase\<close> on the ASCII range (addresses are ASCII).\<close>

definition lower_char :: "char \<Rightarrow> char" where
  "lower_char c =
     (let n = (of_char c :: nat) in if 65 \<le> n \<and> n \<le> 90 then char_of (n + 32) else c)"

definition toLowerCase :: "string \<Rightarrow> string" where
  "toLowerCase s = map lower_char s"

text \<open>Decimal rendering of a number inside a template string.\<close>

function dec :: "nat \<Rightarrow> string" where
  "dec n = (if n < 10 then [char_of (48 + n)] else dec (n div 10) @ [char_of (48 + n mod 10)])"
  by pat_completeness auto
termination
  by (relation "measure id") auto

subsection \<open>The ledger, the provider and ethers as inputs\<close>

record poll_details =
  title :: string
  creator :: string
  endTime :: int
  candidateCount :: int
  isPublic :: bool
  voterCount :: int
  maxVoters :: int

record tx_options =
  gasLimit :: int
  maxFeePerGas :: int
  maxPriorityFeePerGas :: int
  nonce :: "int option"

text \<open>The five positional arguments of \<^verbatim>\<open>contract.metaVote\<close>.\<close>

record vote_args =
  pollIdBN :: int
  candidateIdBN :: int
  voter_arg :: jsval
  proof_arg :: jsval
  signature_arg :: jsval

record receipt =
  receipt_status :: int
  gasUsed :: int
  blockNumber :: int

record transaction =
  tx_from :: string
  tx_to :: string
  tx_nonce :: int

text \<open>
  A call that throws returns \<open>Inl\<close> of the error's message. The receipt query takes the
  number of the monitor's polling attempt as well, since its answer changes with time.
  \<open>Date_now\<close> and \<open>random_10000\<close> are \<^verbatim>\<open>Date.now()\<close> and
  \<^verbatim>\<open>Math.floor(Math.random() * 10000)\<close> at the time of the request;
  \<open>getGasPrice\<close> is the network's suggested fee, which the provider offers.
\<close>

record env =
  BigNumber_from :: "jsval \<Rightarrow> string + int"
  wallet_address :: string
  getPollDetails :: "int \<Rightarrow> string + poll_details"
  hasVoted :: "int \<Rightarrow> jsval \<Rightarrow> string + bool"
  getBalance :: "string \<Rightarrow> string + int"
  getGasPrice :: int
  metaVote :: "vote_args \<Rightarrow> tx_options \<Rightarrow> string + string"
  getTransactionReceipt :: "nat \<Rightarrow> string \<Rightarrow> string + receipt option"
  getTransaction :: "string \<Rightarrow> string + transaction option"
  Date_now :: nat
  random_10000 :: nat

subsection \<open>Events and responses\<close>

datatype event =
    GetPollDetails int
  | HasVoted int jsval
  | GetBalance string
  | MetaVote vote_args tx_options
  | GetTransactionReceipt string
  | GetTransaction string
  | Timer nat

fun is_metaVote :: "event \<Rightarrow> bool" where
  "is_metaVote (MetaVote a opts) = True"
| "is_metaVote e = False"

fun is_receipt_query :: "event \<Rightarrow> bool" where
  "is_receipt_query (GetTransactionReceipt h) = True"
| "is_receipt_query e = False"

record response =
  status :: nat
  success :: bool
  message :: string
  txHash :: "string option"
  error :: "string option"
  echo_pollId :: "jsval option"
  echo_candidateId :: "jsval option"
  requestId :: "string option"

definition reply :: "nat \<Rightarrow> string \<Rightarrow> response" where
  "reply code msg =
     \<lparr>status = code, success = False, message = msg, txHash = None, error = None,
      echo_pollId = None, echo_candidateId = None, requestId = None\<rparr>"

definition reply_error :: "nat \<Rightarrow> string \<Rightarrow> string \<Rightarrow> response" where
  "reply_error code msg err = (reply code msg)\<lparr>error := Some err\<rparr>"

type_synonym outcome = "response \<times> event list"

definition after :: "event list \<Rightarrow> outcome \<Rightarrow> outcome" where
  "after evs out = (fst out, evs @ snd out)"

subsection \<open>Gas parameters\<close>

definition gwei :: "int \<Rightarrow> int" where
  "gwei n = n * 10 ^ 9"

definition original_tx_options :: tx_options where
  "original_tx_options =
     \<lparr>gasLimit = 500000, maxFeePerGas = gwei 80, maxPriorityFeePerGas = gwei 30, nonce = None\<rparr>"

definition replacementGasPrice :: "int \<Rightarrow> tx_options" where
  "replacementGasPrice n =
     \<lparr>gasLimit = 600000, maxFeePerGas = gwei 100, maxPriorityFeePerGas = gwei 35,
      nonce = Some n\<rparr>"

definition estimatedGasCost :: int where
  "estimatedGasCost = gwei 80 * 500000"

subsection \<open>The confirmation monitor\<close>

definition maxConfirmationAttempts :: nat where
  "maxConfirmationAttempts = 5"

text \<open>
  The branch of \<^verbatim>\<open>checkTransactionConfirmation\<close> taken when the receipt is still
  \<^verbatim>\<open>null\<close> at the last attempt: fetch the original transaction, resubmit with its nonce
  and the replacement fees, look at the replacement's receipt once after ten seconds.
  Every failure in it is caught and logged.
\<close>

definition replace_stuck :: "env \<Rightarrow> string \<Rightarrow> vote_args \<Rightarrow> event list" where
  "replace_stuck e h a =
     GetTransaction h #
     (case getTransaction e h of
        Inl err \<Rightarrow> []
      | Inr None \<Rightarrow> []
      | Inr (Some originalTx) \<Rightarrow>
          MetaVote a (replacementGasPrice (tx_nonce originalTx)) #
          (case metaVote e a (replacementGasPrice (tx_nonce originalTx)) of
             Inl err \<Rightarrow> []
           | Inr replacementHash \<Rightarrow> [Timer 10000, GetTransactionReceipt replacementHash]))"

text \<open>What the monitor does once a receipt is there: both branches only log.\<close>

definition mined :: "string \<Rightarrow> vote_args \<Rightarrow> receipt \<Rightarrow> event list" where
  "mined h a r =
     (if receipt_status r = 1 then [HasVoted (pollIdBN a) (voter_arg a)]
      else [GetTransaction h])"

text \<open>
  \<^verbatim>\<open>checkTransactionConfirmation\<close>; the argument \<open>confirmationAttempts\<close> is the value
  of the counter of that name when the function is entered.
\<close>

function checkTransactionConfirmation ::
  "env \<Rightarrow> string \<Rightarrow> vote_args \<Rightarrow> nat \<Rightarrow> event list" where
  "checkTransactionConfirmation e h a confirmationAttempts =
     GetTransactionReceipt h #
     (case getTransactionReceipt e (Suc confirmationAttempts) h of
        Inl err \<Rightarrow>
          if Suc confirmationAttempts < maxConfirmationAttempts
          then Timer (5000 * Suc confirmationAttempts) #
               checkTransactionConfirmation e h a (Suc confirmationAttempts)
          else []
      | Inr None \<Rightarrow>
          if Suc confirmationAttempts < maxConfirmationAttempts
          then Timer (5000 * Suc confirmationAttempts) #
               checkTransactionConfirmation e h a (Suc confirmationAttempts)
          else replace_stuck e h a
      | Inr (Some r) \<Rightarrow> mined h a r)"
  by pat_completeness auto
termination
  by (relation "measure (\<lambda>(e, h, a, n). maxConfirmationAttempts - n)") auto

text \<open>The monitor is started by \<^verbatim>\<open>setTimeout(checkTransactionConfirmation, 5000)\<close>.\<close>

definition monitor :: "env \<Rightarrow> string \<Rightarrow> vote_args \<Rightarrow> event list" where
  "monitor e h a = Timer 5000 # checkTransactionConfirmation e h a 0"

subsection \<open>The submit-vote handler\<close>

definition mk_requestId :: "env \<Rightarrow> string" where
  "mk_requestId e = ''vote-'' @ dec (Date_now e) @ ''-'' @ dec (random_10000 e)"

text \<open>The \<^verbatim>\<open>catch\<close> around the submission: the first matching substring decides.\<close>

definition submission_error :: "string \<Rightarrow> response" where
  "submission_error msg =
     (if str_includes msg ''Bad signature''
      then reply 400 ''Invalid signature provided for vote verification''
      else if str_includes msg ''Already voted''
      then reply 400 ''Voter has already voted in this poll''
      else if str_includes msg ''Insufficient relayer funds'' \<or>
              str_includes msg ''doesn't have enough funds''
      then reply 400 ''Insufficient funds from poll creator to cover gas fees''
      else if str_includes msg ''insufficient funds''
      then reply 400 ''Relayer wallet needs more funds. Please try again later.''
      else if str_includes msg ''nonce''
      then reply 500 ''Transaction nonce error. Please try again.''
      else if str_includes msg ''gas''
      then reply 500 ''Transaction gas error. Please try again later.''
      else reply_error 500 ''Failed to submit vote. Please try again later.'' msg)"

definition accepted :: "env \<Rightarrow> vote_request \<Rightarrow> string \<Rightarrow> response" where
  "accepted e req h =
     \<lparr>status = 200, success = True, message = ''Vote submitted successfully'',
      txHash = Some h, error = None, echo_pollId = Some (pollId req),
      echo_candidateId = Some (candidateId req), requestId = Some (mk_requestId e)\<rparr>"

text \<open>Lines 311-605: the one \<^verbatim>\<open>contract.metaVote\<close> call of the request path.\<close>

definition submit_stage :: "env \<Rightarrow> vote_request \<Rightarrow> vote_args \<Rightarrow> outcome" where
  "submit_stage e req a =
     (case metaVote e a original_tx_options of
        Inl msg \<Rightarrow> (submission_error msg, [MetaVote a original_tx_options])
      | Inr h \<Rightarrow> (accepted e req h, MetaVote a original_tx_options # monitor e h a))"

text \<open>
  Lines 301-309. \<^verbatim>\<open>voter.toLowerCase()\<close> on a value that is not a string throws a
  TypeError, which the outermost \<^verbatim>\<open>catch\<close> turns into a 500.
\<close>

definition self_vote_stage :: "env \<Rightarrow> vote_request \<Rightarrow> vote_args \<Rightarrow> outcome" where
  "self_vote_stage e req a =
     (case voter req of
        JStr v \<Rightarrow>
          if toLowerCase v = toLowerCase (wallet_address e)
          then (reply 400 ''The relayer wallet cannot vote. Please use a different wallet.'', [])
          else submit_stage e req a
      | other \<Rightarrow>
          (reply_error 500 ''Internal server error'' ''voter.toLowerCase is not a function'', []))"

text \<open>\<^verbatim>\<open>checkWalletBalance\<close>: a failing balance query counts as a balance of zero.\<close>

definition checkWalletBalance :: "env \<Rightarrow> int" where
  "checkWalletBalance e =
     (case getBalance e (wallet_address e) of Inl err \<Rightarrow> 0 | Inr balance \<Rightarrow> balance)"

text \<open>Lines 289-299.\<close>

definition balance_stage :: "env \<Rightarrow> vote_request \<Rightarrow> vote_args \<Rightarrow> outcome" where
  "balance_stage e req a =
     after [GetBalance (wallet_address e)]
       (if checkWalletBalance e < estimatedGasCost
        then (reply 400 (''Relayer service wallet needs more funds. '' @
                         ''Please try again later or contact the administrator.''), [])
        else self_vote_stage e req a)"

text \<open>Lines 254-275.\<close>

definition voted_stage :: "env \<Rightarrow> vote_request \<Rightarrow> vote_args \<Rightarrow> outcome" where
  "voted_stage e req a =
     after [HasVoted (pollIdBN a) (voter_arg a)]
       (case hasVoted e (pollIdBN a) (voter_arg a) of
          Inl err \<Rightarrow> (reply 500 ''Failed to check voter status'', [])
        | Inr voted \<Rightarrow>
            if voted then (reply 400 ''Voter has already voted in this poll'', [])
            else balance_stage e req a)"

text \<open>
  Lines 224-252: the poll is fetched and only the candidate index is compared; when the
  fetch fails the handler goes on.
\<close>

definition poll_stage :: "env \<Rightarrow> vote_request \<Rightarrow> vote_args \<Rightarrow> outcome" where
  "poll_stage e req a =
     after [GetPollDetails (pollIdBN a)]
       (case getPollDetails e (pollIdBN a) of
          Inl err \<Rightarrow> voted_stage e req a
        | Inr p \<Rightarrow>
            if candidateIdBN a \<ge> candidateCount p
            then (reply 400 ''Invalid candidate ID'', [])
            else voted_stage e req a)"

text \<open>\<^verbatim>\<open>merkleProof = []\<close> in the destructuring, then \<^verbatim>\<open>merkleProof || []\<close>.\<close>

definition formattedMerkleProof :: "vote_request \<Rightarrow> jsval" where
  "formattedMerkleProof req =
     (let mp = (if merkleProof req = JUndefined then JArr [] else merkleProof req)
      in if truthy mp then mp else JArr [])"

text \<open>Line 182.\<close>

definition missing_parameters :: "vote_request \<Rightarrow> bool" where
  "missing_parameters req =
     (\<not> truthy (pollId req) \<or> candidateId req = JUndefined \<or>
      \<not> truthy (voter req) \<or> \<not> truthy (signature req))"

text \<open>
  Line 198: the log line renders \<^verbatim>\<open>pollId\<close>, \<^verbatim>\<open>candidateId\<close> and \<^verbatim>\<open>voter\<close> in a
  template literal.
\<close>

definition processing_log_throws :: "vote_request \<Rightarrow> bool" where
  "processing_log_throws req =
     (toString_throws (pollId req) \<or> toString_throws (candidateId req) \<or>
      toString_throws (voter req))"

text \<open>
  Lines 174-222, then the stages above. A TypeError of the log line is caught by the
  outermost \<^verbatim>\<open>catch\<close> (line 606).
\<close>

definition submit_vote :: "env \<Rightarrow> vote_request \<Rightarrow> outcome" where
  "submit_vote e req =
     (if missing_parameters req
      then (reply 400 ''Missing required parameters: pollId, candidateId, voter, signature'', [])
      else if processing_log_throws req
      then (reply_error 500 ''Internal server error''
              ''Cannot convert object to primitive value'', [])
      else
        case BigNumber_from e (pollId req) of
          Inl err \<Rightarrow> (reply 400 (''Invalid parameters format: '' @ err), [])
        | Inr pid \<Rightarrow>
            (case BigNumber_from e (candidateId req) of
               Inl err \<Rightarrow> (reply 400 (''Invalid parameters format: '' @ err), [])
             | Inr cid \<Rightarrow>
                 poll_stage e req
                   \<lparr>pollIdBN = pid, candidateIdBN = cid, voter_arg = voter req,
                    proof_arg = formattedMerkleProof req, signature_arg = signature req\<rparr>))"

subsection \<open>Test doubles\<close>

text \<open>
  A stand-in for \<^verbatim>\<open>ethers.BigNumber.from\<close> on numbers and decimal strings, a ledger
  with one open public poll (id 1, three candidates, 4 of 10 voters), a funded relayer
  wallet, and a request that this ledger accepts. The scenarios below vary one thing each.
\<close>

definition mock_BigNumber_from :: "jsval \<Rightarrow> string + int" where
  "mock_BigNumber_from v =
     (case v of
        JNum n \<Rightarrow> Inr n
      | JStr s \<Rightarrow>
          if s \<noteq> [] \<and> list_all (\<lambda>c. 48 \<le> (of_char c :: nat) \<and> (of_char c :: nat) \<le> 57) s
          then Inr (foldl (\<lambda>acc c. 10 * acc + (of_char c - 48)) 0 s)
          else Inl ''invalid BigNumber string''
      | other \<Rightarrow> Inl ''invalid BigNumber value'')"

definition mock_poll :: poll_details where
  "mock_poll =
     \<lparr>title = ''Board election'', creator = ''0x1111111111111111111111111111111111111111'',
      endTime = 1800000000, candidateCount = 3, isPublic = True, voterCount = 4,
      maxVoters = 10\<rparr>"

definition mock_getPollDetails :: "poll_details \<Rightarrow> int \<Rightarrow> string + poll_details" where
  "mock_getPollDetails p pid = (if pid = 1 then Inr p else Inl ''call revert exception'')"

definition mock_hasVoted :: "bool \<Rightarrow> int \<Rightarrow> jsval \<Rightarrow> string + bool" where
  "mock_hasVoted b pid v = (case v of JStr s \<Rightarrow> Inr b | other \<Rightarrow> Inl ''invalid address'')"

definition mock_transaction :: transaction where
  "mock_transaction =
     \<lparr>tx_from = ''0xF0B5381A05A8d8368C7D3af031F7B50e979CeA12'',
      tx_to = ''0x4995f6754359b2ec0b9d537c2f839e3dc01f6240'', tx_nonce = 7\<rparr>"

definition mock_env :: env where
  "mock_env =
     \<lparr>BigNumber_from = mock_BigNumber_from,
      wallet_address = ''0xF0B5381A05A8d8368C7D3af031F7B50e979CeA12'',
      getPollDetails = mock_getPollDetails mock_poll,
      hasVoted = mock_hasVoted False,
      getBalance = (\<lambda>addr. Inr (10 ^ 18)),
      getGasPrice = gwei 200,
      metaVote = (\<lambda>a opts. Inr ''0xabc''),
      getTransactionReceipt = (\<lambda>k h. Inr None),
      getTransaction = (\<lambda>h. Inr (Some mock_transaction)),
      Date_now = 1700000000000,
      random_10000 = 4242\<rparr>"

definition good_request :: vote_request where
  "good_request =
     \<lparr>pollId = JNum 1, candidateId = JNum 0,
      voter = JStr ''0x2222222222222222222222222222222222222222'',
      signature = JStr ''0xdeadbeef'', merkleProof = JUndefined\<rparr>"

definition good_args :: vote_args where
  "good_args =
     \<lparr>pollIdBN = 1, candidateIdBN = 0,
      voter_arg = JStr ''0x2222222222222222222222222222222222222222'',
      proof_arg = JArr [], signature_arg = JStr ''0xdeadbeef''\<rparr>"

text \<open>The poll ended in 2020; \<open>Date_now\<close> is in 2023.\<close>

definition ended_env :: env where
  "ended_env = mock_env\<lparr>getPollDetails := mock_getPollDetails (mock_poll\<lparr>endTime := 1600000000\<rparr>)\<rparr>"

text \<open>The poll has as many voters as it admits.\<close>

definition full_env :: env where
  "full_env = mock_env\<lparr>getPollDetails := mock_getPollDetails (mock_poll\<lparr>voterCount := 10\<rparr>)\<rparr>"

text \<open>Every address has voted already.\<close>

definition voted_env :: env where
  "voted_env = mock_env\<lparr>hasVoted := mock_hasVoted True\<rparr>"

text \<open>The relayer's balance is below the estimated gas cost.\<close>

definition poor_env :: env where
  "poor_env = mock_env\<lparr>getBalance := (\<lambda>addr. Inr (10 ^ 15))\<rparr>"

text \<open>The provider no longer knows the original transaction.\<close>

definition dropped_env :: env where
  "dropped_env = mock_env\<lparr>getTransaction := (\<lambda>h. Inr None)\<rparr>"

text \<open>The node refuses the submission because of the nonce.\<close>

definition nonce_env :: env where
  "nonce_env = mock_env\<lparr>metaVote := (\<lambda>a opts. Inl ''nonce has already been used'')\<rparr>"

text \<open>The relayer's own address as the voter, in lower case.\<close>

definition relayer_request :: vote_request where
  "relayer_request = good_request\<lparr>voter := JStr ''0xf0b5381a05a8d8368c7d3af031f7b50e979cea12''\<rparr>"

subsection \<open>Observations and agreement of environments\<close>

text \<open>
  What the caller and the ledger can observe of a run: the HTTP status, the success flag,
  the message, the transaction hash and the events. The request id and the echoed
  fields of the success body are left out.
\<close>

definition verdict :: "outcome \<Rightarrow> nat \<times> bool \<times> string \<times> string option \<times> event list" where
  "verdict out =
     (status (fst out), success (fst out), message (fst out), txHash (fst out), snd out)"

text \<open>Two environments answer alike wherever the handler asks after the poll was fetched.\<close>

definition same_services :: "env \<Rightarrow> env \<Rightarrow> bool" where
  "same_services e' e =
     (wallet_address e' = wallet_address e \<and> hasVoted e' = hasVoted e \<and>
      getBalance e' = getBalance e \<and> metaVote e' = metaVote e \<and>
      getTransactionReceipt e' = getTransactionReceipt e \<and>
      getTransaction e' = getTransaction e)"

definition same_clock :: "env \<Rightarrow> env \<Rightarrow> bool" where
  "same_clock e' e = (Date_now e' = Date_now e \<and> random_10000 e' = random_10000 e)"

text \<open>Two environments fail on the same polls and give the same candidate count.\<close>

definition same_candidates :: "env \<Rightarrow> env \<Rightarrow> bool" where
  "same_candidates e' e =
     (\<forall>pid. map_sum (\<lambda>err. ()) candidateCount (getPollDetails e' pid) =
            map_sum (\<lambda>err. ()) candidateCount (getPollDetails e pid))"

section \<open>Properties\<close>

subsection \<open>Evaluation and helper lemmas\<close>

lemmas run_defs = submit_vote_def missing_parameters_def processing_log_throws_def poll_stage_def voted_stage_def
  balance_stage_def self_vote_stage_def submit_stage_def after_def checkWalletBalance_def
  estimatedGasCost_def gwei_def formattedMerkleProof_def toLowerCase_def lower_char_def
  submission_error_def accepted_def reply_def reply_error_def
  monitor_def replace_stuck_def mined_def maxConfirmationAttempts_def
  checkTransactionConfirmation.simps original_tx_options_def replacementGasPrice_def
  char_of_def bit_Suc_0_iff

lemmas mock_defs = mock_env_def mock_BigNumber_from_def mock_poll_def mock_getPollDetails_def
  mock_hasVoted_def mock_transaction_def good_request_def good_args_def ended_env_def
  full_env_def voted_env_def poor_env_def dropped_env_def nonce_env_def relayer_request_def

declare checkTransactionConfirmation.simps [simp del] dec.simps [simp del]

lemma fst_after [simp]: "fst (after evs out) = fst out"
  by (simp add: after_def)

lemma snd_after [simp]: "snd (after evs out) = evs @ snd out"
  by (simp add: after_def)

lemma metaVotes_replace_stuck:
  "filter is_metaVote (replace_stuck e h a) =
     (case getTransaction e h of
        Inr (Some otx) \<Rightarrow> [MetaVote a (replacementGasPrice (tx_nonce otx))]
      | other \<Rightarrow> [])"
  by (simp add: replace_stuck_def split: sum.splits option.splits)

lemma metaVotes_mined: "filter is_metaVote (mined h a r) = []"
  by (simp add: mined_def)

lemma metaVotes_check:
  "filter is_metaVote (checkTransactionConfirmation e h a n) = [] \<or>
   filter is_metaVote (checkTransactionConfirmation e h a n) =
     filter is_metaVote (replace_stuck e h a)"
proof (induction e h a n rule: checkTransactionConfirmation.induct)
  case (1 e h a n)
  show ?case
  proof (cases "getTransactionReceipt e (Suc n) h")
    case (Inl err)
    with 1(1) show ?thesis
      by (subst (1 2) checkTransactionConfirmation.simps) simp
  next
    case (Inr ro)
    show ?thesis
    proof (cases ro)
      case None
      with Inr 1(2) show ?thesis
        by (subst (1 2) checkTransactionConfirmation.simps) simp
    next
      case (Some r)
      with Inr show ?thesis
        by (subst (1 2) checkTransactionConfirmation.simps) (simp add: metaVotes_mined)
    qed
  qed
qed

lemma metaVotes_monitor:
  "filter is_metaVote (monitor e h a) = [] \<or>
   filter is_metaVote (monitor e h a) = filter is_metaVote (replace_stuck e h a)"
  using metaVotes_check [of e h a 0] by (simp add: monitor_def)

lemma never_receipt_unfold:
  assumes "\<And>k. getTransactionReceipt e k h = Inr None"
  shows "monitor e h a =
     [Timer 5000, GetTransactionReceipt h, Timer 5000, GetTransactionReceipt h,
      Timer 10000, GetTransactionReceipt h, Timer 15000, GetTransactionReceipt h,
      Timer 20000, GetTransactionReceipt h] @ replace_stuck e h a"
  by (simp add: monitor_def checkTransactionConfirmation.simps assms maxConfirmationAttempts_def)


lemma check_cong:
  "getTransactionReceipt e' = getTransactionReceipt e \<Longrightarrow>
   getTransaction e' = getTransaction e \<Longrightarrow> metaVote e' = metaVote e \<Longrightarrow>
   checkTransactionConfirmation e' h a n = checkTransactionConfirmation e h a n"
proof (induction e h a n rule: checkTransactionConfirmation.induct)
  case (1 e h a n)
  show ?case
    apply (subst (1 2) checkTransactionConfirmation.simps)
    using "1.prems" "1.IH"
    apply (auto simp: replace_stuck_def split: sum.splits option.splits)
    done
qed

lemma monitor_cong:
  "getTransactionReceipt e' = getTransactionReceipt e \<Longrightarrow>
   getTransaction e' = getTransaction e \<Longrightarrow> metaVote e' = metaVote e \<Longrightarrow>
   monitor e' h a = monitor e h a"
  by (simp add: monitor_def check_cong [of e' e])

lemma verdict_after:
  "verdict out' = verdict out \<Longrightarrow> verdict (after evs out') = verdict (after evs out)"
  by (simp add: verdict_def)

lemma submit_stage_cong:
  assumes "same_services e' e"
  shows "verdict (submit_stage e' req a) = verdict (submit_stage e req a)"
    and "same_clock e' e \<Longrightarrow> submit_stage e' req a = submit_stage e req a"
proof -
  have m: "metaVote e' = metaVote e"
    using assms by (simp add: same_services_def)
  have mon: "monitor e' h a = monitor e h a" for h
    using assms by (intro monitor_cong) (simp_all add: same_services_def)
  show "verdict (submit_stage e' req a) = verdict (submit_stage e req a)"
    by (cases "metaVote e a original_tx_options")
       (simp_all add: submit_stage_def m mon verdict_def accepted_def)
  show "submit_stage e' req a = submit_stage e req a" if "same_clock e' e"
    using that
    by (cases "metaVote e a original_tx_options")
       (simp_all add: submit_stage_def m mon accepted_def mk_requestId_def same_clock_def)
qed

lemma self_vote_stage_cong:
  assumes "same_services e' e"
  shows "verdict (self_vote_stage e' req a) = verdict (self_vote_stage e req a)"
    and "same_clock e' e \<Longrightarrow> self_vote_stage e' req a = self_vote_stage e req a"
proof -
  have w: "wallet_address e' = wallet_address e"
    using assms by (simp add: same_services_def)
  show "verdict (self_vote_stage e' req a) = verdict (self_vote_stage e req a)"
    by (cases "voter req") (simp_all add: self_vote_stage_def w submit_stage_cong(1) [OF assms])
  show "self_vote_stage e' req a = self_vote_stage e req a" if "same_clock e' e"
    by (cases "voter req")
       (simp_all add: self_vote_stage_def w submit_stage_cong(2) [OF assms that])
qed

lemma balance_stage_cong:
  assumes "same_services e' e"
  shows "verdict (balance_stage e' req a) = verdict (balance_stage e req a)"
    and "same_clock e' e \<Longrightarrow> balance_stage e' req a = balance_stage e req a"
proof -
  have w: "wallet_address e' = wallet_address e" "checkWalletBalance e' = checkWalletBalance e"
    using assms by (simp_all add: same_services_def checkWalletBalance_def)
  show "verdict (balance_stage e' req a) = verdict (balance_stage e req a)"
    unfolding balance_stage_def w
    by (rule verdict_after) (simp add: self_vote_stage_cong(1) [OF assms])
  show "balance_stage e' req a = balance_stage e req a" if "same_clock e' e"
    by (simp add: balance_stage_def w self_vote_stage_cong(2) [OF assms that])
qed

lemma voted_stage_cong:
  assumes "same_services e' e"
  shows "verdict (voted_stage e' req a) = verdict (voted_stage e req a)"
    and "same_clock e' e \<Longrightarrow> voted_stage e' req a = voted_stage e req a"
proof -
  have w: "hasVoted e' = hasVoted e"
    using assms by (simp add: same_services_def)
  show "verdict (voted_stage e' req a) = verdict (voted_stage e req a)"
    unfolding voted_stage_def w
    by (rule verdict_after)
       (simp add: balance_stage_cong(1) [OF assms] split: sum.splits)
  show "voted_stage e' req a = voted_stage e req a" if "same_clock e' e"
    by (simp add: voted_stage_def w balance_stage_cong(2) [OF assms that] split: sum.splits)
qed

lemma poll_stage_cong:
  assumes "same_services e' e" and "same_candidates e' e"
  shows "verdict (poll_stage e' req a) = verdict (poll_stage e req a)"
    and "same_clock e' e \<Longrightarrow> poll_stage e' req a = poll_stage e req a"
proof -
  have c: "map_sum (\<lambda>err. ()) candidateCount (getPollDetails e' (pollIdBN a)) =
           map_sum (\<lambda>err. ()) candidateCount (getPollDetails e (pollIdBN a))"
    using assms(2) by (simp add: same_candidates_def)
  show "verdict (poll_stage e' req a) = verdict (poll_stage e req a)"
    unfolding poll_stage_def
    apply (rule verdict_after)
    using c
    apply (cases "getPollDetails e' (pollIdBN a)"; cases "getPollDetails e (pollIdBN a)")
       apply (simp_all add: voted_stage_cong(1) [OF assms(1)])
    done
  show "poll_stage e' req a = poll_stage e req a" if "same_clock e' e"
    unfolding poll_stage_def
    using c
    apply (cases "getPollDetails e' (pollIdBN a)"; cases "getPollDetails e (pollIdBN a)")
       apply (simp_all add: voted_stage_cong(2) [OF assms(1) that])
    done
qed

lemma submit_vote_cong:
  assumes "BigNumber_from e' = BigNumber_from e"
    and "same_services e' e" and "same_candidates e' e"
  shows "verdict (submit_vote e' req) = verdict (submit_vote e req)"
    and "same_clock e' e \<Longrightarrow> submit_vote e' req = submit_vote e req"
proof -
  show "verdict (submit_vote e' req) = verdict (submit_vote e req)"
    by (simp add: submit_vote_def assms(1) poll_stage_cong(1) [OF assms(2,3)]
        split: sum.splits)
  show "submit_vote e' req = submit_vote e req" if "same_clock e' e"
    by (simp add: submit_vote_def assms(1) poll_stage_cong(2) [OF assms(2,3) that]
        split: sum.splits)
qed

lemma metaVotes_submit_stage:
  "filter is_metaVote (snd (submit_stage e req a)) =
     MetaVote a original_tx_options #
     (case metaVote e a original_tx_options of
        Inl msg \<Rightarrow> []
      | Inr h \<Rightarrow> filter is_metaVote (monitor e h a))"
  by (simp add: submit_stage_def split: sum.splits)

lemma self_vote_stage_cases:
  "(\<not> success (fst (self_vote_stage e req a)) \<and> snd (self_vote_stage e req a) = []) \<or>
   self_vote_stage e req a = submit_stage e req a"
  by (cases "voter req") (simp_all add: self_vote_stage_def reply_def reply_error_def)

lemma balance_stage_cases:
  "(\<not> success (fst (balance_stage e req a)) \<and>
      filter is_metaVote (snd (balance_stage e req a)) = []) \<or>
   balance_stage e req a = after [GetBalance (wallet_address e)] (submit_stage e req a)"
  using self_vote_stage_cases [of e req a]
  by (auto simp: balance_stage_def reply_def after_def)

lemma voted_stage_cases:
  "(\<not> success (fst (voted_stage e req a)) \<and>
      filter is_metaVote (snd (voted_stage e req a)) = []) \<or>
   voted_stage e req a =
     after [HasVoted (pollIdBN a) (voter_arg a), GetBalance (wallet_address e)]
       (submit_stage e req a)"
  using balance_stage_cases [of e req a]
  by (cases "hasVoted e (pollIdBN a) (voter_arg a)")
     (auto simp: voted_stage_def reply_def after_def)

lemma poll_stage_cases:
  "(\<not> success (fst (poll_stage e req a)) \<and>
      filter is_metaVote (snd (poll_stage e req a)) = []) \<or>
   poll_stage e req a =
     after [GetPollDetails (pollIdBN a), HasVoted (pollIdBN a) (voter_arg a),
            GetBalance (wallet_address e)]
       (submit_stage e req a)"
  using voted_stage_cases [of e req a]
  by (cases "getPollDetails e (pollIdBN a)")
     (auto simp: poll_stage_def reply_def after_def)

lemma submit_vote_cases:
  "(\<not> success (fst (submit_vote e req)) \<and> filter is_metaVote (snd (submit_vote e req)) = []) \<or>
   (\<exists>a. submit_vote e req =
         after [GetPollDetails (pollIdBN a), HasVoted (pollIdBN a) (voter_arg a),
                GetBalance (wallet_address e)]
           (submit_stage e req a))"
proof (cases "missing_parameters req")
  case True
  then show ?thesis by (simp add: submit_vote_def reply_def)
next
  case False
  show ?thesis
  proof (cases "processing_log_throws req")
    case True
    with False show ?thesis by (simp add: submit_vote_def reply_def reply_error_def)
  next
    case logged: False
    show ?thesis
    proof (cases "BigNumber_from e (pollId req)")
      case (Inl err)
      with False logged show ?thesis by (simp add: submit_vote_def reply_def)
    next
      case pid: (Inr pid)
      show ?thesis
      proof (cases "BigNumber_from e (candidateId req)")
        case (Inl err)
        with False logged pid show ?thesis by (simp add: submit_vote_def reply_def)
      next
        case (Inr cid)
        define a where "a =
            \<lparr>pollIdBN = pid, candidateIdBN = cid, voter_arg = voter req,
             proof_arg = formattedMerkleProof req, signature_arg = signature req\<rparr>"
        have sv: "submit_vote e req = poll_stage e req a"
          using False logged pid Inr by (simp add: submit_vote_def a_def)
        from poll_stage_cases [of e req a] show ?thesis
          unfolding sv by blast
      qed
    qed
  qed
qed

lemma self_vote_stage_relayer:
  assumes "voter req = JStr v" and "toLowerCase v = toLowerCase (wallet_address e)"
  shows "self_vote_stage e req a =
     (reply 400 ''The relayer wallet cannot vote. Please use a different wallet.'', [])"
  using assms by (simp add: self_vote_stage_def)

lemma replacement_is_not_original: "replacementGasPrice n \<noteq> original_tx_options"
  by (simp add: replacementGasPrice_def original_tx_options_def)

lemma original_in_monitor:
  "MetaVote a original_tx_options \<notin> set (monitor e h a')"
proof
  assume m: "MetaVote a original_tx_options \<in> set (monitor e h a')"
  have mem: "MetaVote a original_tx_options \<in> set (filter is_metaVote (monitor e h a'))"
    using m by simp
  from metaVotes_monitor [of e h a'] show False
  proof
    assume "filter is_metaVote (monitor e h a') = []"
    with mem have "MetaVote a original_tx_options \<in> set []"
      by (simp only:)
    then show False by simp
  next
    assume eq: "filter is_metaVote (monitor e h a') = filter is_metaVote (replace_stuck e h a')"
    from mem show False
      unfolding eq metaVotes_replace_stuck
      by (auto simp: replacement_is_not_original [symmetric] split: sum.splits option.splits)
  qed
qed

lemma replace_stuck_length: "length (replace_stuck e h a) \<le> 4"
  by (simp add: replace_stuck_def split: sum.splits option.splits)

lemma replace_stuck_receipt_queries:
  "length (filter is_receipt_query (replace_stuck e h a)) \<le> 1"
  by (simp add: replace_stuck_def split: sum.splits option.splits)

text \<open>The log line of line 198 on a poll id that is an object with a \<^verbatim>\<open>toString\<close> key.\<close>

lemma log_line_throw:
  "submit_vote e (good_request\<lparr>pollId := JObj [(''toString'', JNum 0)]\<rparr>) =
     (reply_error 500 ''Internal server error'' ''Cannot convert object to primitive value'', [])"
  by (simp add: submit_vote_def missing_parameters_def processing_log_throws_def
      good_request_def)

subsection \<open>Poll end time\<close>

text \<open>
  C1 (amended). The handler makes no end-time check. What it answers and what it sends to
  the ledger are the same whatever end time the fetched poll carries and whatever the
  clock shows; a vote on a poll that has ended and that passes the checks the handler does
  make is submitted, and refusing it is left to the contract.
\<close>

theorem submit_vote_ignores_end_time:
  "verdict (submit_vote
      (e\<lparr>getPollDetails := \<lambda>pid. map_sum id (\<lambda>p. p\<lparr>endTime := f p\<rparr>) (getPollDetails e pid),
         Date_now := t\<rparr>) req) =
   verdict (submit_vote e req)"
  by (rule submit_vote_cong(1))
     (simp_all add: same_services_def same_candidates_def sum.map_comp comp_def
        cong: sum.map_cong)

theorem submit_vote_ignores_end_time_witness:
  "verdict (submit_vote
      (mock_env\<lparr>getPollDetails :=
           \<lambda>pid. map_sum id (\<lambda>p. p\<lparr>endTime := 1600000000\<rparr>) (getPollDetails mock_env pid),
         Date_now := 1900000000000\<rparr>) good_request) =
   verdict (submit_vote mock_env good_request)"
  by (rule submit_vote_ignores_end_time)

text \<open>
  The claim as stated fails: the poll of \<open>ended_env\<close> ended before the request was
  made, and the vote is accepted and sent.
\<close>

theorem ended_poll_vote_is_submitted:
  "getPollDetails ended_env 1 = Inr (mock_poll\<lparr>endTime := 1600000000\<rparr>) \<and>
   endTime (mock_poll\<lparr>endTime := 1600000000\<rparr>) * 1000 < int (Date_now ended_env) \<and>
   status (fst (submit_vote ended_env good_request)) = 200 \<and>
   success (fst (submit_vote ended_env good_request)) \<and>
   filter is_metaVote (snd (submit_vote ended_env good_request)) =
     [MetaVote good_args original_tx_options, MetaVote good_args (replacementGasPrice 7)]"
  by (simp add: run_defs mock_defs)

subsection \<open>Voter count\<close>

text \<open>
  C2 (amended). The handler makes no poll-full check. Its whole outcome is the same
  whatever voter count and maximum the fetched poll carries; a vote on a full poll that
  passes the checks the handler does make is submitted, and refusing it is left to the
  contract.
\<close>

theorem submit_vote_ignores_voter_count:
  "submit_vote
      (e\<lparr>getPollDetails :=
           \<lambda>pid. map_sum id (\<lambda>p. p\<lparr>voterCount := f p, maxVoters := g p\<rparr>) (getPollDetails e pid)\<rparr>)
      req =
   submit_vote e req"
  by (rule submit_vote_cong(2))
     (simp_all add: same_services_def same_candidates_def same_clock_def sum.map_comp comp_def
        cong: sum.map_cong)

theorem submit_vote_ignores_voter_count_witness:
  "submit_vote
      (mock_env\<lparr>getPollDetails :=
           \<lambda>pid. map_sum id (\<lambda>p. p\<lparr>voterCount := 10, maxVoters := 10\<rparr>) (getPollDetails mock_env pid)\<rparr>)
      good_request =
   submit_vote mock_env good_request"
  by (rule submit_vote_ignores_voter_count)

text \<open>
  The claim as stated fails: the poll of \<open>full_env\<close> has ten voters of ten, and the
  vote is accepted and sent.
\<close>

theorem full_poll_vote_is_submitted:
  "getPollDetails full_env 1 = Inr (mock_poll\<lparr>voterCount := 10\<rparr>) \<and>
   voterCount (mock_poll\<lparr>voterCount := 10\<rparr>) = maxVoters (mock_poll\<lparr>voterCount := 10\<rparr>) \<and>
   status (fst (submit_vote full_env good_request)) = 200 \<and>
   success (fst (submit_vote full_env good_request)) \<and>
   filter is_metaVote (snd (submit_vote full_env good_request)) =
     [MetaVote good_args original_tx_options, MetaVote good_args (replacementGasPrice 7)]"
  by (simp add: run_defs mock_defs)

subsection \<open>The relayer as voter\<close>

text \<open>
  C4 (amended). When the voter is the relayer's own address, compared without regard to
  case, no transaction is submitted and the request is refused with a status of 400 or
  above. The refusal is the 400 ``The relayer wallet cannot vote'' answer when the request
  passes what runs before the comparison: parameters present, the log line of line 198
  rendering \<^verbatim>\<open>pollId\<close>, \<^verbatim>\<open>candidateId\<close> and \<^verbatim>\<open>voter\<close>, both conversions, the
  candidate index, the voter not having voted, and the relayer's balance covering the
  estimated gas cost. Otherwise an earlier refusal is returned.
\<close>

theorem relayer_self_vote_never_submitted:
  assumes "voter req = JStr v" and "toLowerCase v = toLowerCase (wallet_address e)"
  shows "filter is_metaVote (snd (submit_vote e req)) = [] \<and>
         \<not> success (fst (submit_vote e req)) \<and>
         400 \<le> status (fst (submit_vote e req)) \<and>
         (\<not> missing_parameters req \<and> \<not> processing_log_throws req \<and>
          BigNumber_from e (pollId req) = Inr pid \<and>
          BigNumber_from e (candidateId req) = Inr cid \<and>
          (case getPollDetails e pid of Inl err \<Rightarrow> True | Inr p \<Rightarrow> cid < candidateCount p) \<and>
          hasVoted e pid (voter req) = Inr False \<and>
          estimatedGasCost \<le> checkWalletBalance e \<longrightarrow>
            submit_vote e req =
              (reply 400 ''The relayer wallet cannot vote. Please use a different wallet.'',
               [GetPollDetails pid, HasVoted pid (voter req), GetBalance (wallet_address e)]))"
proof -
  have b: "balance_stage e req a =
      (if checkWalletBalance e < estimatedGasCost
       then reply 400 (''Relayer service wallet needs more funds. '' @
                       ''Please try again later or contact the administrator.'')
       else reply 400 ''The relayer wallet cannot vote. Please use a different wallet.'',
       [GetBalance (wallet_address e)])" for a
    by (simp add: balance_stage_def after_def self_vote_stage_relayer [OF assms])
  have v: "filter is_metaVote (snd (voted_stage e req a)) = [] \<and>
           \<not> success (fst (voted_stage e req a)) \<and> 400 \<le> status (fst (voted_stage e req a))"
    for a
    by (cases "hasVoted e (pollIdBN a) (voter_arg a)")
       (simp_all add: voted_stage_def b reply_def after_def)
  have p: "filter is_metaVote (snd (poll_stage e req a)) = [] \<and>
           \<not> success (fst (poll_stage e req a)) \<and> 400 \<le> status (fst (poll_stage e req a))"
    for a
    using v [of a]
    by (cases "getPollDetails e (pollIdBN a)")
       (simp_all add: poll_stage_def reply_def after_def)
  have first: "filter is_metaVote (snd (submit_vote e req)) = [] \<and>
         \<not> success (fst (submit_vote e req)) \<and>
         400 \<le> status (fst (submit_vote e req))"
    using p by (simp add: submit_vote_def reply_def reply_error_def split: sum.splits)
  have second: "submit_vote e req =
              (reply 400 ''The relayer wallet cannot vote. Please use a different wallet.'',
               [GetPollDetails pid, HasVoted pid (voter req), GetBalance (wallet_address e)])"
    if "\<not> missing_parameters req" "\<not> processing_log_throws req"
       "BigNumber_from e (pollId req) = Inr pid"
       "BigNumber_from e (candidateId req) = Inr cid"
       "case getPollDetails e pid of Inl err \<Rightarrow> True | Inr p \<Rightarrow> cid < candidateCount p"
       "hasVoted e pid (voter req) = Inr False"
       "estimatedGasCost \<le> checkWalletBalance e"
    using that
    by (cases "getPollDetails e pid")
       (simp_all add: submit_vote_def poll_stage_def voted_stage_def b after_def)
  from first second show ?thesis by blast
qed

theorem relayer_self_vote_never_submitted_witness:
  "filter is_metaVote (snd (submit_vote mock_env relayer_request)) = [] \<and>
   submit_vote mock_env relayer_request =
     (reply 400 ''The relayer wallet cannot vote. Please use a different wallet.'',
      [GetPollDetails 1, HasVoted 1 (voter relayer_request),
       GetBalance (wallet_address mock_env)])"
proof -
  have h1: "voter relayer_request = JStr ''0xf0b5381a05a8d8368c7d3af031f7b50e979cea12''"
    by (simp add: mock_defs)
  have h2: "toLowerCase ''0xf0b5381a05a8d8368c7d3af031f7b50e979cea12'' =
            toLowerCase (wallet_address mock_env)"
    by (simp add: mock_defs run_defs)
  have h3: "\<not> missing_parameters relayer_request \<and>
            \<not> processing_log_throws relayer_request \<and>
            BigNumber_from mock_env (pollId relayer_request) = Inr 1 \<and>
            BigNumber_from mock_env (candidateId relayer_request) = Inr 0 \<and>
            (case getPollDetails mock_env 1 of Inl err \<Rightarrow> True
             | Inr p \<Rightarrow> 0 < candidateCount p) \<and>
            hasVoted mock_env 1 (voter relayer_request) = Inr False \<and>
            estimatedGasCost \<le> checkWalletBalance mock_env"
    by (simp add: mock_defs run_defs)
  from relayer_self_vote_never_submitted [OF h1 h2, where pid = 1 and cid = 0] h3
  show ?thesis by blast
qed

text \<open>
  The claim as stated fails: for the relayer's own address the answer is the already-voted
  refusal when the ledger reports a vote, and the funds refusal when the balance is low.
\<close>

theorem relayer_self_vote_other_reason_first:
  "voter relayer_request = JStr ''0xf0b5381a05a8d8368c7d3af031f7b50e979cea12'' \<and>
   toLowerCase ''0xf0b5381a05a8d8368c7d3af031f7b50e979cea12'' =
     toLowerCase (wallet_address voted_env) \<and>
   message (fst (submit_vote voted_env relayer_request)) =
     ''Voter has already voted in this poll'' \<and>
   toLowerCase ''0xf0b5381a05a8d8368c7d3af031f7b50e979cea12'' =
     toLowerCase (wallet_address poor_env) \<and>
   message (fst (submit_vote poor_env relayer_request)) =
     ''Relayer service wallet needs more funds. Please try again later or contact the administrator.''"
  by (simp add: run_defs mock_defs)

subsection \<open>A voter who has voted\<close>

text \<open>
  C5 (amended). For a request with its four parameters present and convertible whose
  voter has voted according to \<^verbatim>\<open>hasVoted\<close>, no transaction is submitted and the
  request is refused. When the log line of line 198 can render \<^verbatim>\<open>pollId\<close>,
  \<^verbatim>\<open>candidateId\<close> and \<^verbatim>\<open>voter\<close>, the refusal is the 400 ``Voter has already voted in
  this poll'' answer unless the poll was fetched and the candidate index is outside it,
  which is reported first as ``Invalid candidate ID''.
\<close>

theorem already_voted_never_submitted:
  assumes "\<not> missing_parameters req"
    and "BigNumber_from e (pollId req) = Inr pid"
    and "BigNumber_from e (candidateId req) = Inr cid"
    and "hasVoted e pid (voter req) = Inr True"
  shows "filter is_metaVote (snd (submit_vote e req)) = [] \<and>
         \<not> success (fst (submit_vote e req)) \<and>
         400 \<le> status (fst (submit_vote e req)) \<and>
         (\<not> processing_log_throws req \<longrightarrow>
            fst (submit_vote e req) =
              (case getPollDetails e pid of
                 Inl err \<Rightarrow> reply 400 ''Voter has already voted in this poll''
               | Inr p \<Rightarrow>
                   if candidateCount p \<le> cid then reply 400 ''Invalid candidate ID''
                   else reply 400 ''Voter has already voted in this poll''))"
  using assms
  by (cases "getPollDetails e pid")
     (simp_all add: submit_vote_def poll_stage_def voted_stage_def after_def reply_def
        reply_error_def)

theorem already_voted_never_submitted_witness:
  "filter is_metaVote (snd (submit_vote voted_env good_request)) = [] \<and>
   fst (submit_vote voted_env good_request) = reply 400 ''Voter has already voted in this poll''"
proof -
  have h: "\<not> missing_parameters good_request"
    "BigNumber_from voted_env (pollId good_request) = Inr 1"
    "BigNumber_from voted_env (candidateId good_request) = Inr 0"
    "hasVoted voted_env 1 (voter good_request) = Inr True"
    by (simp_all add: mock_defs run_defs)
  have p: "getPollDetails voted_env 1 = Inr mock_poll" "candidateCount mock_poll = 3"
    "\<not> processing_log_throws good_request"
    by (simp_all add: mock_defs processing_log_throws_def)
  from already_voted_never_submitted [OF h] show ?thesis
    by (simp add: p)
qed

text \<open>
  The claim as stated fails: with candidate 7 of a poll of three, a voter who has voted is
  told that the candidate is invalid, and \<^verbatim>\<open>hasVoted\<close> is never asked.
\<close>

theorem already_voted_invalid_candidate_first:
  "hasVoted voted_env 1 (voter (good_request\<lparr>candidateId := JNum 7\<rparr>)) = Inr True \<and>
   submit_vote voted_env (good_request\<lparr>candidateId := JNum 7\<rparr>) =
     (reply 400 ''Invalid candidate ID'', [GetPollDetails 1])"
  by (simp add: run_defs mock_defs)

subsection \<open>Validation at the boundary\<close>

text \<open>
  C6 (amended). A request in which \<^verbatim>\<open>pollId\<close>, \<^verbatim>\<open>voter\<close> or \<^verbatim>\<open>signature\<close> is absent
  or falsy, or \<^verbatim>\<open>candidateId\<close> is absent, or \<^verbatim>\<open>pollId\<close> or \<^verbatim>\<open>candidateId\<close> is not
  accepted by \<^verbatim>\<open>BigNumber.from\<close>, is refused before any ledger call. The status is 400
  when a parameter is missing, and also when a conversion fails after the log line of
  line 198 has rendered \<^verbatim>\<open>pollId\<close>, \<^verbatim>\<open>candidateId\<close> and \<^verbatim>\<open>voter\<close>. The types of
  \<^verbatim>\<open>voter\<close> and \<^verbatim>\<open>signature\<close> are not examined at the boundary.
\<close>

theorem malformed_request_rejected_before_ledger:
  assumes "\<not> truthy (pollId req) \<or> candidateId req = JUndefined \<or> \<not> truthy (voter req) \<or>
           \<not> truthy (signature req) \<or> isl (BigNumber_from e (pollId req)) \<or>
           isl (BigNumber_from e (candidateId req))"
  shows "snd (submit_vote e req) = [] \<and> \<not> success (fst (submit_vote e req)) \<and>
         400 \<le> status (fst (submit_vote e req)) \<and>
         (missing_parameters req \<or> \<not> processing_log_throws req \<longrightarrow>
            status (fst (submit_vote e req)) = 400)"
  using assms
  by (auto simp: submit_vote_def missing_parameters_def reply_def reply_error_def isl_def
      split: sum.splits)

theorem malformed_request_rejected_before_ledger_witness:
  "status (fst (submit_vote mock_env (good_request\<lparr>signature := JUndefined\<rparr>))) = 400 \<and>
   snd (submit_vote mock_env (good_request\<lparr>signature := JUndefined\<rparr>)) = [] \<and>
   status (fst (submit_vote mock_env (good_request\<lparr>candidateId := JStr ''first''\<rparr>))) = 400 \<and>
   snd (submit_vote mock_env (good_request\<lparr>candidateId := JStr ''first''\<rparr>)) = []"
proof -
  have h1: "\<not> truthy (signature (good_request\<lparr>signature := JUndefined\<rparr>))"
    by simp
  have h2: "isl (BigNumber_from mock_env (candidateId (good_request\<lparr>candidateId := JStr ''first''\<rparr>)))"
    "\<not> processing_log_throws (good_request\<lparr>candidateId := JStr ''first''\<rparr>)"
    "missing_parameters (good_request\<lparr>signature := JUndefined\<rparr>)"
    by (simp_all add: mock_defs processing_log_throws_def missing_parameters_def)
  from malformed_request_rejected_before_ledger [of "good_request\<lparr>signature := JUndefined\<rparr>" mock_env]
       malformed_request_rejected_before_ledger
         [of "good_request\<lparr>candidateId := JStr ''first''\<rparr>" mock_env] h1 h2
  show ?thesis by blast
qed

text \<open>
  The claim as stated fails: a number in place of the voter's address passes the presence
  test, the ledger is asked twice and the answer is a 500; a number in place of the
  signature goes all the way to the submission.
\<close>

theorem ill_typed_voter_reaches_ledger:
  "\<not> missing_parameters (good_request\<lparr>voter := JNum 5\<rparr>) \<and>
   submit_vote mock_env (good_request\<lparr>voter := JNum 5\<rparr>) =
     (reply 500 ''Failed to check voter status'', [GetPollDetails 1, HasVoted 1 (JNum 5)]) \<and>
   list_ex is_metaVote (snd (submit_vote mock_env (good_request\<lparr>signature := JNum 5\<rparr>)))"
  by (simp add: run_defs mock_defs)

subsection \<open>The stuck transaction\<close>

text \<open>
  C7 (amended). When every receipt query answers null, the monitor asks five times, after
  5, 5, 10, 15 and 20 seconds, then fetches the original transaction and stops after at
  most three further events, of which at most one is a receipt query. It issues exactly one replacement, with the original's nonce,
  a gas limit of 600000, 100 gwei per gas and a 35 gwei priority fee (both above the
  original's 80 and 30), when the provider still returns the original transaction, and no
  replacement when it does not.
\<close>

theorem stuck_transaction_replaced_at_most_once:
  assumes "\<forall>k. getTransactionReceipt e k h = Inr None"
  shows "monitor e h a =
           [Timer 5000, GetTransactionReceipt h, Timer 5000, GetTransactionReceipt h,
            Timer 10000, GetTransactionReceipt h, Timer 15000, GetTransactionReceipt h,
            Timer 20000, GetTransactionReceipt h] @ replace_stuck e h a \<and>
         length (replace_stuck e h a) \<le> 4 \<and>
         length (filter is_receipt_query (replace_stuck e h a)) \<le> 1 \<and>
         filter is_metaVote (monitor e h a) =
           (case getTransaction e h of
              Inr (Some originalTx) \<Rightarrow>
                [MetaVote a
                   \<lparr>gasLimit = 600000, maxFeePerGas = 100000000000,
                    maxPriorityFeePerGas = 35000000000, nonce = Some (tx_nonce originalTx)\<rparr>]
            | other \<Rightarrow> []) \<and>
         maxFeePerGas original_tx_options < 100000000000 \<and>
         maxPriorityFeePerGas original_tx_options < 35000000000"
proof -
  have m: "monitor e h a =
           [Timer 5000, GetTransactionReceipt h, Timer 5000, GetTransactionReceipt h,
            Timer 10000, GetTransactionReceipt h, Timer 15000, GetTransactionReceipt h,
            Timer 20000, GetTransactionReceipt h] @ replace_stuck e h a"
    using assms by (intro never_receipt_unfold) simp
  have f: "filter is_metaVote (monitor e h a) = filter is_metaVote (replace_stuck e h a)"
    unfolding m by simp
  show ?thesis
    using m replace_stuck_length [of e h a] replace_stuck_receipt_queries [of e h a]
    by (simp add: f metaVotes_replace_stuck replacementGasPrice_def original_tx_options_def
        gwei_def split: sum.splits option.splits)
qed

theorem stuck_transaction_replaced_at_most_once_witness:
  "filter is_metaVote (monitor mock_env ''0xabc'' good_args) =
     [MetaVote good_args
        \<lparr>gasLimit = 600000, maxFeePerGas = 100000000000,
         maxPriorityFeePerGas = 35000000000, nonce = Some 7\<rparr>] \<and>
   length (monitor mock_env ''0xabc'' good_args) = 14"
proof -
  have h: "\<forall>k. getTransactionReceipt mock_env k ''0xabc'' = Inr None"
    by (simp add: mock_defs)
  have g: "getTransaction mock_env ''0xabc'' = Inr (Some mock_transaction)"
    "tx_nonce mock_transaction = 7"
    "metaVote mock_env = (\<lambda>a opts. Inr ''0xabc'')"
    by (simp_all add: mock_defs)
  from stuck_transaction_replaced_at_most_once [OF h, of good_args]
  show ?thesis
    by (simp add: g replace_stuck_def replacementGasPrice_def gwei_def)
qed

text \<open>
  The claim as stated fails: when the provider has dropped the original transaction, the
  five polls are followed by the one fetch and no replacement is issued.
\<close>

theorem dropped_transaction_is_not_replaced:
  "getTransactionReceipt dropped_env = (\<lambda>k h. Inr None) \<and>
   monitor dropped_env ''0xabc'' good_args =
     [Timer 5000, GetTransactionReceipt ''0xabc'', Timer 5000, GetTransactionReceipt ''0xabc'',
      Timer 10000, GetTransactionReceipt ''0xabc'', Timer 15000, GetTransactionReceipt ''0xabc'',
      Timer 20000, GetTransactionReceipt ''0xabc'', GetTransaction ''0xabc''] \<and>
   filter is_metaVote (monitor dropped_env ''0xabc'' good_args) = []"
  by (simp add: run_defs mock_defs)

subsection \<open>Nonce conflicts\<close>

text \<open>
  C8 (amended). When the submission fails with a message that contains ``nonce'' and none
  of the substrings tested before it, the handler does not retry: the one
  \<^verbatim>\<open>metaVote\<close> call of the request is the only one, and the caller receives status 500
  with ``Transaction nonce error. Please try again.''
\<close>

theorem nonce_conflict_surfaced_without_retry:
  assumes "MetaVote a original_tx_options \<in> set (snd (submit_vote e req))"
    and "metaVote e a original_tx_options = Inl msg"
    and "str_includes msg ''nonce''"
    and "\<not> str_includes msg ''Bad signature''"
    and "\<not> str_includes msg ''Already voted''"
    and "\<not> str_includes msg ''Insufficient relayer funds''"
    and "\<not> str_includes msg ''doesn't have enough funds''"
    and "\<not> str_includes msg ''insufficient funds''"
  shows "fst (submit_vote e req) = reply 500 ''Transaction nonce error. Please try again.'' \<and>
         filter is_metaVote (snd (submit_vote e req)) = [MetaVote a original_tx_options]"
proof -
  from assms(1) have "filter is_metaVote (snd (submit_vote e req)) \<noteq> []"
    by (force simp: filter_empty_conv)
  with submit_vote_cases [of e req] obtain a' where
    sv: "submit_vote e req =
           after [GetPollDetails (pollIdBN a'), HasVoted (pollIdBN a') (voter_arg a'),
                  GetBalance (wallet_address e)] (submit_stage e req a')"
    by blast
  from assms(1) have "MetaVote a original_tx_options \<in> set (snd (submit_stage e req a'))"
    by (simp add: sv)
  then have "a' = a"
    using original_in_monitor [of a e _ a']
    by (auto simp: submit_stage_def split: sum.splits)
  with sv assms(2-) show ?thesis
    by (simp add: submit_stage_def submission_error_def)
qed

theorem nonce_conflict_surfaced_without_retry_witness:
  "fst (submit_vote nonce_env good_request) =
     reply 500 ''Transaction nonce error. Please try again.'' \<and>
   filter is_metaVote (snd (submit_vote nonce_env good_request)) =
     [MetaVote good_args original_tx_options]"
proof -
  have h1: "MetaVote good_args original_tx_options \<in> set (snd (submit_vote nonce_env good_request))"
    by (simp add: run_defs mock_defs)
  have h2: "metaVote nonce_env good_args original_tx_options = Inl ''nonce has already been used''"
    by (simp add: mock_defs)
  have h3: "str_includes ''nonce has already been used'' ''nonce''"
    "\<not> str_includes ''nonce has already been used'' ''Bad signature''"
    "\<not> str_includes ''nonce has already been used'' ''Already voted''"
    "\<not> str_includes ''nonce has already been used'' ''Insufficient relayer funds''"
    "\<not> str_includes ''nonce has already been used'' ''doesn't have enough funds''"
    "\<not> str_includes ''nonce has already been used'' ''insufficient funds''"
    by simp_all
  show ?thesis
    by (rule nonce_conflict_surfaced_without_retry [OF h1 h2 h3])
qed

text \<open>
  The claim as stated fails: the nonce error is the final outcome of the request, after a
  single submission.
\<close>

theorem nonce_conflict_is_final_outcome:
  "metaVote nonce_env good_args original_tx_options = Inl ''nonce has already been used'' \<and>
   submit_vote nonce_env good_request =
     (reply 500 ''Transaction nonce error. Please try again.'',
      [GetPollDetails 1, HasVoted 1 (JStr ''0x2222222222222222222222222222222222222222''),
       GetBalance ''0xF0B5381A05A8d8368C7D3af031F7B50e979CeA12'',
       MetaVote good_args original_tx_options]) \<and>
   length (filter is_metaVote (snd (submit_vote nonce_env good_request))) = 1"
  by (simp add: run_defs mock_defs)

subsection \<open>Gas parameters of the original submission\<close>

text \<open>
  C9. The first \<^verbatim>\<open>metaVote\<close> call of any run, the original submission, carries the
  fixed options: a gas limit of 500000, 80 gwei per gas, a 30 gwei priority fee and no
  nonce of its own. No gas estimate exists in the handler, and the network's suggested
  fee has no influence on the run.
\<close>

theorem original_submission_has_fixed_gas:
  "(filter is_metaVote (snd (submit_vote e req)) = [] \<or>
    (\<exists>a rest. filter is_metaVote (snd (submit_vote e req)) =
               MetaVote a original_tx_options # rest)) \<and>
   original_tx_options =
     \<lparr>gasLimit = 500000, maxFeePerGas = 80000000000, maxPriorityFeePerGas = 30000000000,
      nonce = None\<rparr> \<and>
   verdict (submit_vote (e\<lparr>getGasPrice := price\<rparr>) req) = verdict (submit_vote e req)"
proof -
  have "filter is_metaVote (snd (submit_vote e req)) = [] \<or>
    (\<exists>a rest. filter is_metaVote (snd (submit_vote e req)) =
               MetaVote a original_tx_options # rest)"
    using submit_vote_cases [of e req] by (auto simp: metaVotes_submit_stage)
  moreover have "verdict (submit_vote (e\<lparr>getGasPrice := price\<rparr>) req) = verdict (submit_vote e req)"
    by (rule submit_vote_cong(1)) (simp_all add: same_services_def same_candidates_def)
  ultimately show ?thesis
    by (simp add: original_tx_options_def gwei_def)
qed

theorem original_submission_has_fixed_gas_witness:
  "filter is_metaVote (snd (submit_vote mock_env good_request)) =
     [MetaVote good_args
        \<lparr>gasLimit = 500000, maxFeePerGas = 80000000000, maxPriorityFeePerGas = 30000000000,
         nonce = None\<rparr>,
      MetaVote good_args (replacementGasPrice 7)] \<and>
   verdict (submit_vote (mock_env\<lparr>getGasPrice := 999000000000\<rparr>) good_request) =
     verdict (submit_vote mock_env good_request)"
proof -
  have run: "filter is_metaVote (snd (submit_vote mock_env good_request)) =
     [MetaVote good_args original_tx_options, MetaVote good_args (replacementGasPrice 7)]"
    by (simp add: run_defs mock_defs)
  from original_submission_has_fixed_gas [of mock_env good_request 999000000000] run
  show ?thesis by simp
qed

subsection \<open>Presence tests\<close>

text \<open>
  C10. A falsy \<^verbatim>\<open>pollId\<close>, the number 0 among them, is refused with status 400 and
  ``Missing required parameters'' before any ledger call. A \<^verbatim>\<open>candidateId\<close> of 0 passes
  the presence test, which compares with \<^verbatim>\<open>undefined\<close>, and the request is not refused
  as missing parameters.
\<close>

theorem falsy_pollId_rejected_zero_candidateId_passes:
  "(\<not> truthy (pollId req) \<longrightarrow>
      submit_vote e req =
        (reply 400 ''Missing required parameters: pollId, candidateId, voter, signature'', [])) \<and>
   \<not> truthy (JNum 0) \<and>
   (candidateId req = JNum 0 \<and> truthy (pollId req) \<and> truthy (voter req) \<and>
    truthy (signature req) \<longrightarrow>
      \<not> missing_parameters req \<and>
      message (fst (submit_vote e req)) \<noteq>
        ''Missing required parameters: pollId, candidateId, voter, signature'')"
proof -
  have "message (fst (submit_vote e req)) \<noteq>
        ''Missing required parameters: pollId, candidateId, voter, signature''"
    if "\<not> missing_parameters req"
    using that
    by (auto simp: submit_vote_def poll_stage_def voted_stage_def balance_stage_def
        self_vote_stage_def submit_stage_def submission_error_def accepted_def reply_def
        reply_error_def split: sum.splits jsval.splits)
  then show ?thesis
    by (auto simp: submit_vote_def missing_parameters_def)
qed

theorem falsy_pollId_rejected_zero_candidateId_passes_witness:
  "submit_vote mock_env (good_request\<lparr>pollId := JNum 0\<rparr>) =
     (reply 400 ''Missing required parameters: pollId, candidateId, voter, signature'', []) \<and>
   candidateId good_request = JNum 0 \<and>
   \<not> missing_parameters good_request \<and>
   message (fst (submit_vote mock_env good_request)) \<noteq>
     ''Missing required parameters: pollId, candidateId, voter, signature''"
proof -
  have h1: "\<not> truthy (pollId (good_request\<lparr>pollId := JNum 0\<rparr>))"
    by simp
  have h2: "candidateId good_request = JNum 0 \<and> truthy (pollId good_request) \<and>
            truthy (voter good_request) \<and> truthy (signature good_request)"
    by (simp add: good_request_def)
  from falsy_pollId_rejected_zero_candidateId_passes [of "good_request\<lparr>pollId := JNum 0\<rparr>" mock_env]
       falsy_pollId_rejected_zero_candidateId_passes [of good_request mock_env] h1 h2
  show ?thesis by blast
qed

end
